theory Spec2Isabelle
  imports Complex_Main "HOL-Library.Log_Nat"
begin

section \<open>Python values\<close>

text \<open>
  The functions of \<^verbatim>\<open>utils/lead_scoring.py\<close>, \<^verbatim>\<open>utils/validation.py\<close> and
  \<^verbatim>\<open>utils/security.py\<close> take the decoded JSON body of a request: a dictionary whose
  values are \<^verbatim>\<open>None\<close>, booleans, unbounded integers, floats, strings, lists and
  dictionaries. A dictionary is an association list in insertion order; a lookup takes the
  first entry of a key (a Python dictionary holds every key once).

  A float is modelled by its exact value: \<open>Fin q\<close> is the double whose value is the
  rational \<open>q\<close> (both zeros are \<open>Fin 0\<close>). The code only compares floats with integer
  constants, truncates them and tests them for zero, and Python does each of these exactly.
  A string is a list of 8-bit characters, read as the code points U+0000 to U+00FF.
\<close>

datatype pyfloat = Fin rat | PosInf | NegInf | NaN

datatype pyval =
    PNone
  | PBool bool
  | PInt int
  | PFloat pyfloat
  | PStr string
  | PList "pyval list"
  | PDict "(string \<times> pyval) list"

type_synonym pydict = "(string \<times> pyval) list"

datatype pyerr = TypeError | ValueError | OverflowError

definition bind_err :: "pyerr + 'a \<Rightarrow> ('a \<Rightarrow> pyerr + 'b) \<Rightarrow> pyerr + 'b" where
  "bind_err m f = (case m of Inl e \<Rightarrow> Inl e | Inr x \<Rightarrow> f x)"

text \<open>\<^verbatim>\<open>data.get(k)\<close> and \<^verbatim>\<open>data.get(k, default)\<close>.\<close>

definition dict_get :: "pydict \<Rightarrow> string \<Rightarrow> pyval" where
  "dict_get d k = (case map_of d k of None \<Rightarrow> PNone | Some v \<Rightarrow> v)"

definition dict_get_default :: "pydict \<Rightarrow> string \<Rightarrow> pyval \<Rightarrow> pyval" where
  "dict_get_default d k dflt = (case map_of d k of None \<Rightarrow> dflt | Some v \<Rightarrow> v)"

text \<open>Truth value of an object, as \<^verbatim>\<open>if x:\<close> and \<^verbatim>\<open>not x\<close> take it.\<close>

fun truthy :: "pyval \<Rightarrow> bool" where
  "truthy PNone = False"
| "truthy (PBool b) = b"
| "truthy (PInt n) = (n \<noteq> 0)"
| "truthy (PFloat f) = (f \<noteq> Fin 0)"
| "truthy (PStr s) = (s \<noteq> [])"
| "truthy (PList xs) = (xs \<noteq> [])"
| "truthy (PDict kvs) = (kvs \<noteq> [])"

text \<open>Comparison of a float with a constant; every comparison with NaN is false.\<close>

fun fge :: "pyfloat \<Rightarrow> rat \<Rightarrow> bool" where
  "fge (Fin q) c = (c \<le> q)"
| "fge PosInf c = True"
| "fge NegInf c = False"
| "fge NaN c = False"

fun fgt :: "pyfloat \<Rightarrow> rat \<Rightarrow> bool" where
  "fgt (Fin q) c = (c < q)"
| "fgt PosInf c = True"
| "fgt NegInf c = False"
| "fgt NaN c = False"

fun flt :: "pyfloat \<Rightarrow> rat \<Rightarrow> bool" where
  "flt (Fin q) c = (q < c)"
| "flt PosInf c = False"
| "flt NegInf c = True"
| "flt NaN c = False"

fun fle :: "pyfloat \<Rightarrow> rat \<Rightarrow> bool" where
  "fle (Fin q) c = (q \<le> c)"
| "fle PosInf c = False"
| "fle NegInf c = True"
| "fle NaN c = False"

subsection \<open>Rounding to a double\<close>

text \<open>
  \<^verbatim>\<open>float(n)\<close> of an integer and \<^verbatim>\<open>float(s)\<close> of a decimal string round the exact
  value to the nearest double, ties to even: 53 significant bits, exponents down to
  \<open>-1022\<close> (below that the spacing stays \<open>2^-1074\<close>), and a result of magnitude
  \<open>2^1024\<close> or more is an overflow.
\<close>

definition pow2 :: "int \<Rightarrow> rat" where
  "pow2 e = (if 0 \<le> e then 2 ^ nat e else 1 / 2 ^ nat (- e))"

definition ilog2 :: "rat \<Rightarrow> int" where
  "ilog2 a = (if 1 \<le> a then bitlen \<lfloor>a\<rfloor> - 1 else - bitlen (\<lceil>1 / a\<rceil> - 1))"

definition round_half_even :: "rat \<Rightarrow> int" where
  "round_half_even x =
     (let f = \<lfloor>x\<rfloor>; d = x - of_int f
      in if d < 1 / 2 then f else if 1 / 2 < d then f + 1 else if even f then f else f + 1)"

definition round_double :: "rat \<Rightarrow> pyfloat" where
  "round_double x =
     (if x = 0 then Fin 0
      else let a = \<bar>x\<bar>;
               e = max (ilog2 a) (- 1022);
               u = pow2 (e - 52);
               r = of_int (round_half_even (a / u)) * u
           in if 2 ^ 1024 \<le> r then (if 0 < x then PosInf else NegInf)
              else Fin (if 0 < x then r else - r))"

subsection \<open>Parsing numbers from strings\<close>

text \<open>
  Whitespace as \<^verbatim>\<open>str.strip()\<close>, \<^verbatim>\<open>float\<close>, \<^verbatim>\<open>int\<close> and the pattern \<^verbatim>\<open>\s\<close> see it
  among the first 256 code points.
\<close>

definition is_space :: "char \<Rightarrow> bool" where
  "is_space c = ((of_char c :: nat) \<in> {9, 10, 11, 12, 13, 28, 29, 30, 31, 32, 133, 160})"

definition is_digit :: "char \<Rightarrow> bool" where
  "is_digit c = (48 \<le> (of_char c :: nat) \<and> (of_char c :: nat) \<le> 57)"

definition digit_val :: "char \<Rightarrow> int" where
  "digit_val c = of_char c - 48"

definition strip :: "string \<Rightarrow> string" where
  "strip s = rev (dropWhile is_space (rev (dropWhile is_space s)))"

text \<open>
  A digit part: digits with single underscores between them. \<open>digits_acc v n s\<close> reads on
  after a digit and returns the value, the number of digits read and the rest.
\<close>

fun digits_acc :: "int \<Rightarrow> nat \<Rightarrow> string \<Rightarrow> int \<times> nat \<times> string" where
  "digits_acc v n [] = (v, n, [])"
| "digits_acc v n [c] =
     (if is_digit c then (10 * v + digit_val c, Suc n, []) else (v, n, [c]))"
| "digits_acc v n (c # d # ds) =
     (if is_digit c then digits_acc (10 * v + digit_val c) (Suc n) (d # ds)
      else if c = CHR ''_'' \<and> is_digit d then digits_acc (10 * v + digit_val d) (Suc n) ds
      else (v, n, c # d # ds))"

definition digitpart :: "string \<Rightarrow> (int \<times> nat \<times> string) option" where
  "digitpart s =
     (case s of [] \<Rightarrow> None
      | c # cs \<Rightarrow> if is_digit c then Some (digits_acc (digit_val c) 1 cs) else None)"

definition split_sign :: "string \<Rightarrow> bool \<times> string" where
  "split_sign s =
     (case s of [] \<Rightarrow> (False, [])
      | c # cs \<Rightarrow> if c = CHR ''-'' then (True, cs)
                 else if c = CHR ''+'' then (False, cs) else (False, c # cs))"

definition lower :: "char \<Rightarrow> char" where
  "lower c =
     (case map_of (zip ''ABCDEFGHIJKLMNOPQRSTUVWXYZ'' ''abcdefghijklmnopqrstuvwxyz'') c of
        Some l \<Rightarrow> l | None \<Rightarrow> c)"

text \<open>\<^verbatim>\<open>int(s)\<close>: optional sign and one digit part between optional whitespace.\<close>

definition int_of_str :: "string \<Rightarrow> int option" where
  "int_of_str s =
     (let (neg, t) = split_sign (strip s)
      in case digitpart t of
           Some (v, n, []) \<Rightarrow> Some (if neg then - v else v)
         | _ \<Rightarrow> None)"

text \<open>
  The exponent of a float literal: nothing, or \<^verbatim>\<open>e\<close>/\<^verbatim>\<open>E\<close>, an optional sign and a
  digit part, up to the end of the string.
\<close>

definition exponent :: "string \<Rightarrow> int option" where
  "exponent s =
     (case s of [] \<Rightarrow> Some 0
      | c # cs \<Rightarrow>
          if lower c = CHR ''e'' then
            (let (neg, t) = split_sign cs
             in case digitpart t of
                  Some (v, n, []) \<Rightarrow> Some (if neg then - v else v)
                | _ \<Rightarrow> None)
          else None)"

definition pow10 :: "int \<Rightarrow> rat" where
  "pow10 e = (if 0 \<le> e then 10 ^ nat e else 1 / 10 ^ nat (- e))"

text \<open>
  The unsigned decimal literal: \<^verbatim>\<open>digits[.[digits]][exponent]\<close> or
  \<^verbatim>\<open>.digits[exponent]\<close>; the result is its exact value.
\<close>

definition fraction :: "rat \<Rightarrow> string \<Rightarrow> rat option" where
  "fraction i s =
     (case digitpart s of
        Some (v, n, r) \<Rightarrow>
          (case exponent r of
             Some e \<Rightarrow> Some ((i + of_int v / 10 ^ n) * pow10 e)
           | None \<Rightarrow> None)
      | None \<Rightarrow> None)"

definition decimal :: "string \<Rightarrow> rat option" where
  "decimal s =
     (case s of
        [] \<Rightarrow> None
      | c # cs \<Rightarrow>
          if c = CHR ''.'' then fraction 0 cs
          else (case digitpart s of
                  None \<Rightarrow> None
                | Some (v, n, []) \<Rightarrow> Some (of_int v)
                | Some (v, n, d # ds) \<Rightarrow>
                    if d = CHR ''.'' then
                      (case ds of
                         [] \<Rightarrow> Some (of_int v)
                       | x # xs \<Rightarrow>
                           if is_digit x then fraction (of_int v) ds
                           else (case exponent ds of
                                   Some e \<Rightarrow> Some (of_int v * pow10 e)
                                 | None \<Rightarrow> None))
                    else (case exponent (d # ds) of
                            Some e \<Rightarrow> Some (of_int v * pow10 e)
                          | None \<Rightarrow> None)))"

text \<open>
  \<^verbatim>\<open>float(s)\<close>: surrounding whitespace is dropped, then an optional sign and
  \<^verbatim>\<open>inf\<close>, \<^verbatim>\<open>infinity\<close>, \<^verbatim>\<open>nan\<close> (in any case) or a decimal literal, rounded to the
  nearest double; a literal too large gives an infinity, not an error.
\<close>

definition float_of_str :: "string \<Rightarrow> pyfloat option" where
  "float_of_str s =
     (let (neg, t) = split_sign (strip s); l = map lower t
      in if l = ''inf'' \<or> l = ''infinity'' then Some (if neg then NegInf else PosInf)
         else if l = ''nan'' then Some NaN
         else (case decimal t of
                 Some q \<Rightarrow> Some (round_double (if neg then - q else q))
               | None \<Rightarrow> None))"

subsection \<open>The conversions \<^verbatim>\<open>float(x)\<close>, \<^verbatim>\<open>int(x)\<close> and \<^verbatim>\<open>len(x)\<close>\<close>

text \<open>
  \<^verbatim>\<open>float\<close> raises TypeError on \<^verbatim>\<open>None\<close>, lists and dictionaries, ValueError on a
  string that is no float literal, and OverflowError on an integer too large for a double.
\<close>

fun py_float :: "pyval \<Rightarrow> pyerr + pyfloat" where
  "py_float PNone = Inl TypeError"
| "py_float (PBool b) = Inr (Fin (if b then 1 else 0))"
| "py_float (PInt n) =
     (case round_double (of_int n) of
        PosInf \<Rightarrow> Inl OverflowError
      | NegInf \<Rightarrow> Inl OverflowError
      | f \<Rightarrow> Inr f)"
| "py_float (PFloat f) = Inr f"
| "py_float (PStr s) = (case float_of_str s of None \<Rightarrow> Inl ValueError | Some f \<Rightarrow> Inr f)"
| "py_float (PList xs) = Inl TypeError"
| "py_float (PDict kvs) = Inl TypeError"

text \<open>
  \<^verbatim>\<open>int\<close> truncates a float towards zero, raises ValueError on NaN and on a string that
  is no integer literal, OverflowError on an infinity, and TypeError on \<^verbatim>\<open>None\<close>, lists
  and dictionaries.
\<close>

definition trunc :: "rat \<Rightarrow> int" where
  "trunc q = (if 0 \<le> q then \<lfloor>q\<rfloor> else \<lceil>q\<rceil>)"

fun py_int :: "pyval \<Rightarrow> pyerr + int" where
  "py_int PNone = Inl TypeError"
| "py_int (PBool b) = Inr (if b then 1 else 0)"
| "py_int (PInt n) = Inr n"
| "py_int (PFloat (Fin q)) = Inr (trunc q)"
| "py_int (PFloat PosInf) = Inl OverflowError"
| "py_int (PFloat NegInf) = Inl OverflowError"
| "py_int (PFloat NaN) = Inl ValueError"
| "py_int (PStr s) = (case int_of_str s of None \<Rightarrow> Inl ValueError | Some n \<Rightarrow> Inr n)"
| "py_int (PList xs) = Inl TypeError"
| "py_int (PDict kvs) = Inl TypeError"

fun py_len :: "pyval \<Rightarrow> pyerr + nat" where
  "py_len (PStr s) = Inr (length s)"
| "py_len (PList xs) = Inr (length xs)"
| "py_len (PDict kvs) = Inr (length kvs)"
| "py_len PNone = Inl TypeError"
| "py_len (PBool b) = Inl TypeError"
| "py_len (PInt n) = Inl TypeError"
| "py_len (PFloat f) = Inl TypeError"

section \<open>Lead scoring (\<^verbatim>\<open>utils/lead_scoring.py\<close>)\<close>

text \<open>
  \<^verbatim>\<open>table.get(key, 0)\<close> on a dictionary with string keys: the key is hashed first, which
  raises TypeError for a list or a dictionary; a key of another type equals no string.
\<close>

fun table_get :: "(string \<times> int) list \<Rightarrow> pyval \<Rightarrow> pyerr + int" where
  "table_get tbl (PStr s) = Inr (case map_of tbl s of None \<Rightarrow> 0 | Some p \<Rightarrow> p)"
| "table_get tbl (PList xs) = Inl TypeError"
| "table_get tbl (PDict kvs) = Inl TypeError"
| "table_get tbl PNone = Inr 0"
| "table_get tbl (PBool b) = Inr 0"
| "table_get tbl (PInt n) = Inr 0"
| "table_get tbl (PFloat f) = Inr 0"

definition size_scores :: "(string \<times> int) list" where
  "size_scores =
     [(''1-10'', 5), (''11-50'', 10), (''51-200'', 15), (''201-1000'', 12), (''1000+'', 8)]"

definition industry_scores :: "(string \<times> int) list" where
  "industry_scores =
     [(''E-commerce'', 15), (''SaaS'', 12), (''Retail'', 12), (''Technology'', 10),
      (''Marketing'', 10), (''Healthcare'', 8), (''Finance'', 8), (''Education'', 6),
      (''Real Estate'', 6), (''Manufacturing'', 4), (''Consulting'', 4), (''Other'', 2)]"

definition stage_scores :: "(string \<times> int) list" where
  "stage_scores =
     [(''Growth'', 10), (''Established'', 8), (''Startup'', 6), (''Enterprise'', 4)]"

definition calculate_demographic_score :: "pydict \<Rightarrow> pyerr + int" where
  "calculate_demographic_score data =
     bind_err (table_get size_scores (dict_get_default data ''company_size'' (PStr ''''))) (\<lambda>s1.
     bind_err (table_get industry_scores (dict_get_default data ''industry'' (PStr ''''))) (\<lambda>s2.
     bind_err (table_get stage_scores (dict_get_default data ''business_stage'' (PStr ''''))) (\<lambda>s3.
     Inr (s1 + s2 + s3 + (if truthy (dict_get data ''website'') then 10 else 0)))))"

text \<open>The \<^verbatim>\<open>if\<close>/\<^verbatim>\<open>elif\<close> chains of the behavioural score, in the source's order.\<close>

definition revenue_points :: "pyfloat \<Rightarrow> int" where
  "revenue_points r =
     (if fge r 100000 then 25 else if fge r 50000 then 20 else if fge r 25000 then 15
      else if fge r 10000 then 10 else if fge r 5000 then 5 else 0)"

definition orders_points :: "int \<Rightarrow> int" where
  "orders_points n =
     (if 1000 \<le> n then 15 else if 500 \<le> n then 12 else if 200 \<le> n then 8
      else if 50 \<le> n then 4 else 0)"

definition aov_points :: "pyfloat \<Rightarrow> int" where
  "aov_points a =
     (if fge a 200 then 10 else if fge a 100 then 8 else if fge a 50 then 5
      else if fge a 25 then 2 else 0)"

definition calculate_behavioral_score :: "pydict \<Rightarrow> pyerr + int" where
  "calculate_behavioral_score data =
     bind_err (py_float (dict_get_default data ''monthly_revenue'' (PInt 0))) (\<lambda>monthly_revenue.
     bind_err (py_int (dict_get_default data ''monthly_orders'' (PInt 0))) (\<lambda>monthly_orders.
     bind_err (py_float (dict_get_default data ''average_order_value'' (PInt 0))) (\<lambda>aov.
     Inr (revenue_points monthly_revenue + orders_points monthly_orders + aov_points aov))))"

text \<open>The chains of the fit score.\<close>

definition conversion_points :: "pyfloat \<Rightarrow> int" where
  "conversion_points c =
     (if fgt c 0 then
        (if flt c 2 then 15 else if flt c 3 then 12 else if flt c 5 then 8
         else if flt c 8 then 4 else 0)
      else 0)"

definition abandonment_points :: "pyfloat \<Rightarrow> int" where
  "abandonment_points a =
     (if fgt a 0 then
        (if fgt a 70 then 15 else if fgt a 60 then 12 else if fgt a 50 then 8
         else if fgt a 40 then 4 else 0)
      else 0)"

definition manual_hours_points :: "int \<Rightarrow> int" where
  "manual_hours_points h =
     (if 20 \<le> h then 10 else if 10 \<le> h then 7 else if 5 \<le> h then 4
      else if 1 \<le> h then 1 else 0)"

definition ad_spend_points :: "pyfloat \<Rightarrow> int" where
  "ad_spend_points a =
     (if fge a 10000 then 10 else if fge a 5000 then 8 else if fge a 2000 then 5
      else if fge a 500 then 2 else 0)"

definition calculate_fit_score :: "pydict \<Rightarrow> pyerr + int" where
  "calculate_fit_score data =
     bind_err (py_float (dict_get_default data ''conversion_rate'' (PInt 0))) (\<lambda>conversion_rate.
     bind_err (py_float (dict_get_default data ''cart_abandonment_rate'' (PInt 0))) (\<lambda>abandonment_rate.
     bind_err (py_int (dict_get_default data ''manual_hours_per_week'' (PInt 0))) (\<lambda>manual_hours.
     bind_err (py_float (dict_get_default data ''monthly_ad_spend'' (PInt 0))) (\<lambda>ad_spend.
     Inr (conversion_points conversion_rate + abandonment_points abandonment_rate
          + manual_hours_points manual_hours + ad_spend_points ad_spend)))))"

definition calculate_lead_score :: "pydict \<Rightarrow> pyerr + int" where
  "calculate_lead_score data =
     bind_err (calculate_demographic_score data) (\<lambda>d.
     bind_err (calculate_behavioral_score data) (\<lambda>b.
     bind_err (calculate_fit_score data) (\<lambda>f.
     Inr (max 0 (min 150 (d + b + f))))))"

definition assign_tier :: "int \<Rightarrow> string" where
  "assign_tier lead_score =
     (if 100 \<le> lead_score then ''Hot'' else if 60 \<le> lead_score then ''Warm'' else ''Cold'')"


section \<open>Regular expressions\<close>

text \<open>
  The patterns of \<^verbatim>\<open>validation.py\<close> are regular expressions over character classes. A
  pattern is matched by derivatives. \<^verbatim>\<open>re.match('^...$', s)\<close> accepts the whole string,
  and also the string without its last character when that is a newline, since \<^verbatim>\<open>$\<close>
  matches before a final newline too. \<^verbatim>\<open>re.match\<close> raises TypeError on a subject that is
  not a string.
\<close>

datatype rexp =
    Zero
  | One
  | Atom "char \<Rightarrow> bool"
  | Alt rexp rexp
  | Seq rexp rexp
  | Star rexp

fun nullable :: "rexp \<Rightarrow> bool" where
  "nullable Zero = False"
| "nullable One = True"
| "nullable (Atom p) = False"
| "nullable (Alt r s) = (nullable r \<or> nullable s)"
| "nullable (Seq r s) = (nullable r \<and> nullable s)"
| "nullable (Star r) = True"

fun deriv :: "char \<Rightarrow> rexp \<Rightarrow> rexp" where
  "deriv c Zero = Zero"
| "deriv c One = Zero"
| "deriv c (Atom p) = (if p c then One else Zero)"
| "deriv c (Alt r s) = Alt (deriv c r) (deriv c s)"
| "deriv c (Seq r s) =
     (if nullable r then Alt (Seq (deriv c r) s) (deriv c s) else Seq (deriv c r) s)"
| "deriv c (Star r) = Seq (deriv c r) (Star r)"

fun matches :: "rexp \<Rightarrow> string \<Rightarrow> bool" where
  "matches r [] = nullable r"
| "matches r (c # cs) = matches (deriv c r) cs"

definition re_match_anchored :: "rexp \<Rightarrow> string \<Rightarrow> bool" where
  "re_match_anchored r s =
     (matches r s \<or> (s \<noteq> [] \<and> last s = CHR 0x0A \<and> matches r (butlast s)))"

definition re_match :: "rexp \<Rightarrow> pyval \<Rightarrow> pyerr + bool" where
  "re_match r v = (case v of PStr s \<Rightarrow> Inr (re_match_anchored r s) | _ \<Rightarrow> Inl TypeError)"

definition lit :: "char \<Rightarrow> rexp" where
  "lit c = Atom (\<lambda>x. x = c)"

fun lits :: "string \<Rightarrow> rexp" where
  "lits [] = One"
| "lits (c # cs) = Seq (lit c) (lits cs)"

definition plus :: "rexp \<Rightarrow> rexp" where
  "plus r = Seq r (Star r)"

definition opt :: "rexp \<Rightarrow> rexp" where
  "opt r = Alt One r"

definition is_alpha :: "char \<Rightarrow> bool" where
  "is_alpha c =
     ((65 \<le> (of_char c :: nat) \<and> (of_char c :: nat) \<le> 90) \<or>
      (97 \<le> (of_char c :: nat) \<and> (of_char c :: nat) \<le> 122))"

fun seqs :: "rexp list \<Rightarrow> rexp" where
  "seqs [] = One"
| "seqs (r # rs) = Seq r (seqs rs)"

text \<open>\<^verbatim>\<open>^[a-zA-Z0-9._%+-]+@[a-zA-Z0-9.-]+\.[a-zA-Z]{2,}$\<close>\<close>

definition email_pattern :: rexp where
  "email_pattern =
     seqs [plus (Atom (\<lambda>c. is_alpha c \<or> is_digit c \<or> c \<in> set ''._%+-'')),
           lit CHR ''@'',
           plus (Atom (\<lambda>c. is_alpha c \<or> is_digit c \<or> c \<in> set ''.-'')),
           lit CHR ''.'',
           Atom is_alpha, Atom is_alpha, Star (Atom is_alpha)]"

text \<open>\<^verbatim>\<open>^[a-zA-Z\s'-]+$\<close>\<close>

definition name_pattern :: rexp where
  "name_pattern = plus (Atom (\<lambda>c. is_alpha c \<or> is_space c \<or> c = CHR 0x27 \<or> c = CHR ''-''))"

text \<open>\<^verbatim>\<open>^https?://[a-zA-Z0-9.-]+\.[a-zA-Z]{2,}(/.*)?$\<close>; the dot matches all but a newline.\<close>

definition website_pattern :: rexp where
  "website_pattern =
     seqs [lits ''http'', opt (lit CHR ''s''), lits ''://'',
           plus (Atom (\<lambda>c. is_alpha c \<or> is_digit c \<or> c \<in> set ''.-'')),
           lit CHR ''.'',
           Atom is_alpha, Atom is_alpha, Star (Atom is_alpha),
           opt (Seq (lit CHR ''/'') (Star (Atom (\<lambda>c. c \<noteq> CHR 0x0A))))]"

section \<open>Form validation (\<^verbatim>\<open>utils/validation.py\<close>)\<close>

record validation_result =
  valid :: bool
  errors :: "(string \<times> string) list"

text \<open>\<^verbatim>\<open>errors[k] = v\<close>: an existing key keeps its place, a new one goes to the end.\<close>

fun dict_set :: "('k \<times> 'v) list \<Rightarrow> 'k \<Rightarrow> 'v \<Rightarrow> ('k \<times> 'v) list" where
  "dict_set [] k v = [(k, v)]"
| "dict_set (p # ps) k v = (if fst p = k then (k, v) # ps else p # dict_set ps k v)"

text \<open>
  \<^verbatim>\<open>field.replace("_", " ").title()\<close> on the field names, which are ASCII: the first
  letter of every run of letters in upper case, the others in lower case.
\<close>

definition upper :: "char \<Rightarrow> char" where
  "upper c =
     (case map_of (zip ''abcdefghijklmnopqrstuvwxyz'' ''ABCDEFGHIJKLMNOPQRSTUVWXYZ'') c of
        Some u \<Rightarrow> u | None \<Rightarrow> c)"

fun title_from :: "bool \<Rightarrow> string \<Rightarrow> string" where
  "title_from prev [] = []"
| "title_from prev (c # cs) =
     (if is_alpha c then (if prev then lower c else upper c) # title_from True cs
      else c # title_from False cs)"

definition field_title :: "string \<Rightarrow> string" where
  "field_title field =
     title_from False (map (\<lambda>c. if c = CHR ''_'' then CHR '' '' else c) field)"

text \<open>The format \<^verbatim>\<open>{n:,}\<close> of a natural number: decimal digits in groups of three.\<close>

function digits :: "nat \<Rightarrow> string" where
  "digits n =
     (if n < 10 then [''0123456789'' ! n] else digits (n div 10) @ [''0123456789'' ! (n mod 10)])"
  by pat_completeness auto
termination
  by (relation "measure id") auto

fun group3 :: "string \<Rightarrow> string" where
  "group3 (a # b # c # d # ds) = a # b # c # CHR '','' # group3 (d # ds)"
| "group3 ds = ds"

definition fmt_commas :: "nat \<Rightarrow> string" where
  "fmt_commas n = rev (group3 (rev (digits n)))"

fun is_str :: "pyval \<Rightarrow> bool" where
  "is_str (PStr s) = True"
| "is_str v = False"

fun str_blank :: "pyval \<Rightarrow> bool" where
  "str_blank (PStr s) = (strip s = [])"
| "str_blank v = False"

fun foldM_err :: "('s \<Rightarrow> 'a \<Rightarrow> pyerr + 's) \<Rightarrow> 's \<Rightarrow> 'a list \<Rightarrow> pyerr + 's" where
  "foldM_err f s [] = Inr s"
| "foldM_err f s (x # xs) = bind_err (f s x) (\<lambda>s'. foldM_err f s' xs)"

definition required_fields :: "string list" where
  "required_fields =
     [''first_name'', ''last_name'', ''email'', ''monthly_revenue'',
      ''average_order_value'', ''monthly_orders'']"

text \<open>One round of the loop over the required fields (lines 20 to 24).\<close>

definition check_required :: "pydict \<Rightarrow> (string \<times> string) list \<Rightarrow> string \<Rightarrow> (string \<times> string) list" where
  "check_required data errs field =
     (if \<not> truthy (dict_get data field) then
        dict_set errs field (field_title field @ '' is required'')
      else if str_blank (dict_get data field) then
        dict_set errs field (field_title field @ '' cannot be empty'')
      else errs)"

text \<open>The email check (lines 27 to 30).\<close>

definition check_email :: "pydict \<Rightarrow> (string \<times> string) list \<Rightarrow> pyerr + (string \<times> string) list" where
  "check_email data errs =
     (if truthy (dict_get data ''email'') then
        bind_err (re_match email_pattern (dict_get data ''email'')) (\<lambda>m.
          Inr (if \<not> m then dict_set errs ''email'' ''Please enter a valid email address''
               else errs))
      else Inr errs)"

text \<open>One round of the loop over the name fields (lines 33 to 40).\<close>

definition check_name :: "pydict \<Rightarrow> (string \<times> string) list \<Rightarrow> string \<Rightarrow> pyerr + (string \<times> string) list" where
  "check_name data errs name_field =
     (if truthy (dict_get data name_field) then
        bind_err (py_len (dict_get data name_field)) (\<lambda>n.
          if n < 2 then
            Inr (dict_set errs name_field (field_title name_field @ '' must be at least 2 characters''))
          else if 50 < n then
            Inr (dict_set errs name_field (field_title name_field @ '' must be less than 50 characters''))
          else
            bind_err (re_match name_pattern (dict_get data name_field)) (\<lambda>m.
              Inr (if \<not> m then
                     dict_set errs name_field (field_title name_field @ '' contains invalid characters'')
                   else errs)))
      else Inr errs)"

definition financial_fields :: "(string \<times> nat \<times> nat) list" where
  "financial_fields =
     [(''monthly_revenue'', 1000, 10000000),
      (''average_order_value'', 1, 100000),
      (''monthly_orders'', 1, 1000000)]"

text \<open>
  One round of the loop over the financial fields (lines 49 to 58). The handler catches
  ValueError and TypeError; an OverflowError of \<^verbatim>\<open>float\<close> leaves the function.
\<close>

definition check_financial :: "pydict \<Rightarrow> (string \<times> string) list \<Rightarrow> string \<times> nat \<times> nat \<Rightarrow> pyerr + (string \<times> string) list" where
  "check_financial data errs fc =
     (case fc of (field, lo, hi) \<Rightarrow>
        if truthy (dict_get data field) then
          (case py_float (dict_get data field) of
             Inr v \<Rightarrow>
               if flt v (of_nat lo) then
                 Inr (dict_set errs field (field_title field @ '' must be at least $'' @ fmt_commas lo))
               else if fgt v (of_nat hi) then
                 Inr (dict_set errs field (field_title field @ '' cannot exceed $'' @ fmt_commas hi))
               else Inr errs
           | Inl OverflowError \<Rightarrow> Inl OverflowError
           | Inl e \<Rightarrow> Inr (dict_set errs field (field_title field @ '' must be a valid number'')))
        else Inr errs)"

text \<open>The phone check (lines 61 to 64); \<^verbatim>\<open>re.sub\<close> raises TypeError on a non-string.\<close>

definition check_phone :: "pydict \<Rightarrow> (string \<times> string) list \<Rightarrow> pyerr + (string \<times> string) list" where
  "check_phone data errs =
     (if truthy (dict_get data ''phone'') then
        (case dict_get data ''phone'' of
           PStr s \<Rightarrow>
             (let phone_clean = filter is_digit s
              in Inr (if length phone_clean < 10 \<or> 15 < length phone_clean
                      then dict_set errs ''phone'' ''Please enter a valid phone number''
                      else errs))
         | _ \<Rightarrow> Inl TypeError)
      else Inr errs)"

text \<open>The website check (lines 67 to 70).\<close>

definition check_website :: "pydict \<Rightarrow> (string \<times> string) list \<Rightarrow> pyerr + (string \<times> string) list" where
  "check_website data errs =
     (if truthy (dict_get data ''website'') then
        bind_err (re_match website_pattern (dict_get data ''website'')) (\<lambda>m.
          Inr (if \<not> m then
                 dict_set errs ''website''
                   ''Please enter a valid website URL (include http:// or https://)''
               else errs))
      else Inr errs)"

text \<open>The company check (lines 73 and 74).\<close>

definition check_company :: "pydict \<Rightarrow> (string \<times> string) list \<Rightarrow> pyerr + (string \<times> string) list" where
  "check_company data errs =
     (if truthy (dict_get data ''company'') then
        bind_err (py_len (dict_get data ''company'')) (\<lambda>n.
          Inr (if 100 < n then
                 dict_set errs ''company'' ''Company name must be less than 100 characters''
               else errs))
      else Inr errs)"

text \<open>
  \<^verbatim>\<open>value not in options\<close> for a list of strings: a value that is not a string equals
  none of them.
\<close>

fun not_in :: "pyval \<Rightarrow> string list \<Rightarrow> bool" where
  "not_in (PStr s) options = (s \<notin> set options)"
| "not_in v options = True"

definition valid_industries :: "string list" where
  "valid_industries =
     [''E-commerce'', ''SaaS'', ''Healthcare'', ''Finance'', ''Education'',
      ''Real Estate'', ''Manufacturing'', ''Retail'', ''Technology'',
      ''Consulting'', ''Marketing'', ''Other'']"

definition valid_stages :: "string list" where
  "valid_stages = [''Startup'', ''Growth'', ''Established'', ''Enterprise'']"

definition valid_sizes :: "string list" where
  "valid_sizes = [''1-10'', ''11-50'', ''51-200'', ''201-1000'', ''1000+'']"

text \<open>The three membership checks (lines 77 to 93), by field, options and message.\<close>

definition check_member :: "pydict \<Rightarrow> string \<Rightarrow> string list \<Rightarrow> string \<Rightarrow> (string \<times> string) list \<Rightarrow> (string \<times> string) list" where
  "check_member data field options msg errs =
     (if truthy (dict_get data field) \<and> not_in (dict_get data field) options
      then dict_set errs field msg else errs)"

definition percentage_fields :: "string list" where
  "percentage_fields = [''conversion_rate'', ''cart_abandonment_rate'']"

text \<open>One round of the loop over the percentage fields (lines 97 to 104).\<close>

definition check_percentage :: "pydict \<Rightarrow> (string \<times> string) list \<Rightarrow> string \<Rightarrow> pyerr + (string \<times> string) list" where
  "check_percentage data errs field =
     (if truthy (dict_get data field) then
        (case py_float (dict_get data field) of
           Inr v \<Rightarrow>
             Inr (if flt v 0 \<or> fgt v 100 then
                    dict_set errs field (field_title field @ '' must be between 0 and 100'')
                  else errs)
         | Inl OverflowError \<Rightarrow> Inl OverflowError
         | Inl e \<Rightarrow> Inr (dict_set errs field (field_title field @ '' must be a valid percentage'')))
      else Inr errs)"

definition validate_roi_submission :: "pydict \<Rightarrow> pyerr + validation_result" where
  "validate_roi_submission data =
     bind_err (check_email data (foldl (check_required data) [] required_fields)) (\<lambda>e1.
     bind_err (foldM_err (check_name data) e1 [''first_name'', ''last_name'']) (\<lambda>e2.
     bind_err (foldM_err (check_financial data) e2 financial_fields) (\<lambda>e3.
     bind_err (check_phone data e3) (\<lambda>e4.
     bind_err (check_website data e4) (\<lambda>e5.
     bind_err (check_company data e5) (\<lambda>e6.
     bind_err (foldM_err (check_percentage data)
        (check_member data ''company_size'' valid_sizes ''Please select a valid company size''
        (check_member data ''business_stage'' valid_stages ''Please select a valid business stage''
        (check_member data ''industry'' valid_industries ''Please select a valid industry'' e6)))
        percentage_fields) (\<lambda>errs.
     Inr \<lparr>valid = (length errs = 0), errors = errs\<rparr>)))))))"

definition validate_calculation_data :: "pydict \<Rightarrow> pyerr + validation_result" where
  "validate_calculation_data data =
     bind_err
       (if \<not> truthy (dict_get data ''monthly_revenue'') then
          Inr (dict_set [] ''monthly_revenue'' ''Monthly revenue is required for calculations'')
        else
          (case py_float (dict_get data ''monthly_revenue'') of
             Inr v \<Rightarrow>
               Inr (if fle v 0 then
                      dict_set [] ''monthly_revenue'' ''Monthly revenue must be greater than 0''
                    else if fgt v 10000000 then
                      dict_set [] ''monthly_revenue'' ''Monthly revenue seems unusually high''
                    else [])
           | Inl OverflowError \<Rightarrow> Inl OverflowError
           | Inl e \<Rightarrow> Inr (dict_set [] ''monthly_revenue'' ''Monthly revenue must be a valid number'')))
       (\<lambda>errs. Inr \<lparr>valid = (length errs = 0), errors = errs\<rparr>)"

section \<open>Sanitizers\<close>

definition dangerous :: "char \<Rightarrow> bool" where
  "dangerous c = (c = CHR ''<'' \<or> c = CHR ''>'' \<or> c = CHR 0x22 \<or> c = CHR 0x27)"

text \<open>\<^verbatim>\<open>sanitize_input\<close> of \<^verbatim>\<open>utils/security.py\<close>.\<close>

fun sanitize_input :: "pyval \<Rightarrow> pyval" where
  "sanitize_input (PDict kvs) = PDict (map (\<lambda>(key, v). (key, sanitize_input v)) kvs)"
| "sanitize_input (PList xs) = PList (map sanitize_input xs)"
| "sanitize_input (PStr s) = PStr (take 1000 (filter (\<lambda>c. \<not> dangerous c) s))"
| "sanitize_input v = v"

text \<open>\<^verbatim>\<open>sanitize_form_data\<close> of \<^verbatim>\<open>utils/validation.py\<close>.\<close>

definition field_limit :: "string \<Rightarrow> nat" where
  "field_limit key =
     (if key \<in> set [''first_name'', ''last_name''] then 50
      else if key = ''email'' then 255
      else if key \<in> set [''company'', ''website''] then 200
      else if key = ''phone'' then 20
      else 500)"

definition sanitize_field :: "string \<Rightarrow> pyval \<Rightarrow> pyval" where
  "sanitize_field key v =
     (case v of
        PStr s \<Rightarrow> PStr (take (field_limit key) (strip (filter (\<lambda>c. \<not> dangerous c) s)))
      | _ \<Rightarrow> v)"

definition sanitize_form_data :: "pydict \<Rightarrow> pydict" where
  "sanitize_form_data data =
     foldl (\<lambda>sanitized (key, v). dict_set sanitized key (sanitize_field key v)) [] data"

section \<open>Notions used by the properties\<close>

text \<open>A value that can be a dictionary key: everything but a list or a dictionary.\<close>

fun hashable :: "pyval \<Rightarrow> bool" where
  "hashable (PList xs) = False"
| "hashable (PDict kvs) = False"
| "hashable v = True"

definition returns :: "pyerr + 'a \<Rightarrow> bool" where
  "returns m = (case m of Inl e \<Rightarrow> False | Inr x \<Rightarrow> True)"

text \<open>
  The numeric fields parse as numbers: each conversion the scoring functions apply to a
  numeric field (or to its default \<open>0\<close>) returns.
\<close>

definition numeric_fields_parse :: "pydict \<Rightarrow> bool" where
  "numeric_fields_parse data =
     (returns (py_float (dict_get_default data ''monthly_revenue'' (PInt 0))) \<and>
      returns (py_int (dict_get_default data ''monthly_orders'' (PInt 0))) \<and>
      returns (py_float (dict_get_default data ''average_order_value'' (PInt 0))) \<and>
      returns (py_float (dict_get_default data ''conversion_rate'' (PInt 0))) \<and>
      returns (py_float (dict_get_default data ''cart_abandonment_rate'' (PInt 0))) \<and>
      returns (py_int (dict_get_default data ''manual_hours_per_week'' (PInt 0))) \<and>
      returns (py_float (dict_get_default data ''monthly_ad_spend'' (PInt 0))))"

definition categories_hashable :: "pydict \<Rightarrow> bool" where
  "categories_hashable data =
     (hashable (dict_get_default data ''company_size'' (PStr '''')) \<and>
      hashable (dict_get_default data ''industry'' (PStr '''')) \<and>
      hashable (dict_get_default data ''business_stage'' (PStr '''')))"

text \<open>The order of the tiers: Cold below Warm below Hot.\<close>

definition tier_rank :: "string \<Rightarrow> nat" where
  "tier_rank t = (if t = ''Hot'' then 2 else if t = ''Warm'' then 1 else 0)"

text \<open>The two scenario inputs of the specification.\<close>

definition scenario_full :: pydict where
  "scenario_full =
     [(''company_size'', PStr ''51-200''), (''industry'', PStr ''E-commerce''),
      (''business_stage'', PStr ''Growth''), (''website'', PStr ''http://x.com''),
      (''monthly_revenue'', PInt 150000), (''monthly_orders'', PInt 1200),
      (''average_order_value'', PInt 250), (''conversion_rate'', PFloat (Fin (3 / 2))),
      (''cart_abandonment_rate'', PInt 75), (''manual_hours_per_week'', PInt 25),
      (''monthly_ad_spend'', PInt 12000)]"

definition scenario_minimal :: pydict where
  "scenario_minimal =
     [(''monthly_revenue'', PInt 3000), (''monthly_orders'', PInt 10),
      (''average_order_value'', PInt 10)]"

text \<open>A submission whose required fields are valid, but for the given \<^verbatim>\<open>monthly_revenue\<close>.\<close>

definition submission_with_revenue :: "pyval \<Rightarrow> pydict" where
  "submission_with_revenue v =
     [(''first_name'', PStr ''Ann''), (''last_name'', PStr ''Lee''),
      (''email'', PStr ''ann@x.co''), (''monthly_revenue'', v),
      (''average_order_value'', PInt 50), (''monthly_orders'', PInt 100)]"

text \<open>The optional fields with a check of their own.\<close>

definition optional_checked :: "string list" where
  "optional_checked =
     [''phone'', ''website'', ''company'', ''industry'', ''business_stage'', ''company_size'']"

text \<open>
  The shape of a value (its strings blanked), its string leaves from left to right, the
  dictionary inside a value, and what \<^verbatim>\<open>sanitize_input\<close> makes of a string.
\<close>

fun shape :: "pyval \<Rightarrow> pyval" where
  "shape (PDict kvs) = PDict (map (\<lambda>(key, v). (key, shape v)) kvs)"
| "shape (PList xs) = PList (map shape xs)"
| "shape (PStr s) = PStr []"
| "shape v = v"

fun str_leaves :: "pyval \<Rightarrow> string list" where
  "str_leaves (PDict kvs) = concat (map (\<lambda>(key, v). str_leaves v) kvs)"
| "str_leaves (PList xs) = concat (map str_leaves xs)"
| "str_leaves (PStr s) = [s]"
| "str_leaves v = []"

fun the_dict :: "pyval \<Rightarrow> pydict" where
  "the_dict (PDict kvs) = kvs"
| "the_dict v = []"

definition clean :: "string \<Rightarrow> string" where
  "clean s = take 1000 (filter (\<lambda>c. \<not> dangerous c) s)"

section \<open>Basic facts\<close>

lemma bind_err_Inr [simp]: "bind_err (Inr x) f = f x"
  by (simp add: bind_err_def)

lemma bind_err_Inl [simp]: "bind_err (Inl e) f = Inl e"
  by (simp add: bind_err_def)

lemma returns_Inr: "returns m \<Longrightarrow> \<exists>x. m = Inr x"
  by (cases m) (simp_all add: returns_def)

subsection \<open>Integers within 53 bits convert to floats exactly\<close>

lemma round_half_even_of_int: "round_half_even (of_int m) = m"
  by (simp add: round_half_even_def)

lemma round_half_even_ge_floor: "\<lfloor>x\<rfloor> \<le> round_half_even x"
  by (simp add: round_half_even_def Let_def)

lemma round_double_pos_small:
  assumes "0 < a" and "a < 2 ^ 53"
  shows "round_double (of_int a) = Fin (of_int a)"
proof -
  have b1: "1 \<le> bitlen a" using assms(1) by (simp add: bitlen_ge_iff_power)
  have b53: "bitlen a \<le> 53" using assms(2) by (simp add: bitlen_le_iff_power)
  define k where "k = nat (53 - bitlen a)"
  have il: "ilog2 (of_int a) = bitlen a - 1"
    using assms(1) by (simp add: ilog2_def)
  have e: "max (bitlen a - 1) (- 1022) = bitlen a - 1" using b1 by simp
  have u: "pow2 (bitlen a - 1 - 52) = 1 / 2 ^ k"
    using b53 by (auto simp: pow2_def k_def)
  have q: "(of_int a :: rat) / (1 / 2 ^ k) = of_int (a * 2 ^ k)" by simp
  have r: "of_int (round_half_even (of_int a / (1 / 2 ^ k))) * (1 / 2 ^ k) = (of_int a :: rat)"
    unfolding q round_half_even_of_int by simp
  have lt: "(of_int a :: rat) < 2 ^ 1024"
  proof -
    have "a < 2 ^ 1024" using assms(2) by (rule less_trans) simp
    then have "(of_int a :: rat) < of_int (2 ^ 1024)" by (simp only: of_int_less_iff)
    then show ?thesis by simp
  qed
  have nz: "(of_int a :: rat) \<noteq> 0" "0 < (of_int a :: rat)" "\<bar>of_int a :: rat\<bar> = of_int a"
    using assms(1) by simp_all
  show ?thesis
    unfolding round_double_def Let_def nz(3) il e u r
    using nz lt by simp
qed

lemma round_double_minus:
  "round_double (- x) =
     (case round_double x of
        Fin q \<Rightarrow> Fin (- q) | PosInf \<Rightarrow> NegInf | NegInf \<Rightarrow> PosInf | NaN \<Rightarrow> NaN)"
  by (cases "x = 0"; cases "0 < x") (auto simp: round_double_def Let_def)

lemma round_double_int_exact:
  assumes "\<bar>n\<bar> < 2 ^ 53"
  shows "round_double (of_int n) = Fin (of_int n)"
proof -
  consider "n = 0" | "0 < n" | "n < 0" by linarith
  then show ?thesis
  proof cases
    case 1
    then show ?thesis by (simp add: round_double_def)
  next
    case 2
    with assms show ?thesis by (simp add: round_double_pos_small)
  next
    case 3
    with assms have "round_double (of_int (- n)) = Fin (of_int (- n))"
      by (intro round_double_pos_small) simp_all
    then have "round_double (- of_int n) = Fin (- of_int n)" by simp
    then show ?thesis by (simp add: round_double_minus split: pyfloat.splits)
  qed
qed

lemma py_float_int_exact: "\<bar>n\<bar> < 2 ^ 53 \<Longrightarrow> py_float (PInt n) = Inr (Fin (of_int n))"
  by (simp add: round_double_int_exact)

lemmas py_float_PInt = py_float.simps(3)

declare py_float.simps(3) [simp del]

subsection \<open>Bounds of the score terms\<close>

lemma table_get_hashable: "hashable v \<Longrightarrow> \<exists>p. table_get tbl v = Inr p"
  by (cases v) simp_all

lemma table_get_bounds:
  assumes "list_all (\<lambda>(k, p). 0 \<le> p \<and> p \<le> m) tbl" and "0 \<le> m"
    and "table_get tbl v = Inr p"
  shows "0 \<le> p \<and> p \<le> m"
proof (cases v)
  case (PStr s)
  show ?thesis
  proof (cases "map_of tbl s")
    case None
    with PStr assms show ?thesis by simp
  next
    case (Some q)
    then have "(s, q) \<in> set tbl" by (rule map_of_SomeD)
    with assms(1) have "0 \<le> q \<and> q \<le> m" by (auto simp: list_all_iff)
    with PStr Some assms(3) show ?thesis by simp
  qed
qed (use assms in simp_all)

lemma size_scores_bounds: "table_get size_scores v = Inr p \<Longrightarrow> 0 \<le> p \<and> p \<le> 15"
  by (rule table_get_bounds[of 15 size_scores]) (simp_all add: size_scores_def)

lemma industry_scores_bounds: "table_get industry_scores v = Inr p \<Longrightarrow> 0 \<le> p \<and> p \<le> 15"
  by (rule table_get_bounds[of 15 industry_scores]) (simp_all add: industry_scores_def)

lemma stage_scores_bounds: "table_get stage_scores v = Inr p \<Longrightarrow> 0 \<le> p \<and> p \<le> 10"
  by (rule table_get_bounds[of 10 stage_scores]) (simp_all add: stage_scores_def)

lemma revenue_points_bounds: "0 \<le> revenue_points r \<and> revenue_points r \<le> 25"
  by (simp add: revenue_points_def)

lemma orders_points_bounds: "0 \<le> orders_points n \<and> orders_points n \<le> 15"
  by (simp add: orders_points_def)

lemma aov_points_bounds: "0 \<le> aov_points a \<and> aov_points a \<le> 10"
  by (simp add: aov_points_def)

lemma conversion_points_bounds: "0 \<le> conversion_points c \<and> conversion_points c \<le> 15"
  by (simp add: conversion_points_def)

lemma abandonment_points_bounds: "0 \<le> abandonment_points a \<and> abandonment_points a \<le> 15"
  by (simp add: abandonment_points_def)

lemma manual_hours_points_bounds: "0 \<le> manual_hours_points h \<and> manual_hours_points h \<le> 10"
  by (simp add: manual_hours_points_def)

lemma ad_spend_points_bounds: "0 \<le> ad_spend_points a \<and> ad_spend_points a \<le> 10"
  by (simp add: ad_spend_points_def)

lemma demographic_bounds:
  assumes "calculate_demographic_score data = Inr d"
  shows "0 \<le> d \<and> d \<le> 50"
proof -
  from assms obtain s1 s2 s3 where
    s1: "table_get size_scores (dict_get_default data ''company_size'' (PStr '''')) = Inr s1" and
    s2: "table_get industry_scores (dict_get_default data ''industry'' (PStr '''')) = Inr s2" and
    s3: "table_get stage_scores (dict_get_default data ''business_stage'' (PStr '''')) = Inr s3" and
    d: "d = s1 + s2 + s3 + (if truthy (dict_get data ''website'') then 10 else 0)"
    by (auto simp: calculate_demographic_score_def bind_err_def split: sum.splits)
  from size_scores_bounds[OF s1] industry_scores_bounds[OF s2] stage_scores_bounds[OF s3] d
  show ?thesis by simp
qed

lemma behavioral_bounds:
  assumes "calculate_behavioral_score data = Inr b"
  shows "0 \<le> b \<and> b \<le> 50"
proof -
  from assms obtain r n a where
    b: "b = revenue_points r + orders_points n + aov_points a"
    by (auto simp: calculate_behavioral_score_def bind_err_def split: sum.splits)
  from revenue_points_bounds[of r] orders_points_bounds[of n] aov_points_bounds[of a] b
  show ?thesis by simp
qed

lemma fit_bounds:
  assumes "calculate_fit_score data = Inr f"
  shows "0 \<le> f \<and> f \<le> 50"
proof -
  from assms obtain c a h s where
    f: "f = conversion_points c + abandonment_points a + manual_hours_points h + ad_spend_points s"
    by (auto simp: calculate_fit_score_def bind_err_def split: sum.splits)
  from conversion_points_bounds[of c] abandonment_points_bounds[of a]
    manual_hours_points_bounds[of h] ad_spend_points_bounds[of s] f
  show ?thesis by simp
qed

lemma demographic_returns:
  assumes "categories_hashable data"
  shows "\<exists>d. calculate_demographic_score data = Inr d"
proof -
  from assms obtain s1 s2 s3 where
    "table_get size_scores (dict_get_default data ''company_size'' (PStr '''')) = Inr s1"
    "table_get industry_scores (dict_get_default data ''industry'' (PStr '''')) = Inr s2"
    "table_get stage_scores (dict_get_default data ''business_stage'' (PStr '''')) = Inr s3"
    unfolding categories_hashable_def by (meson table_get_hashable)
  then show ?thesis by (simp add: calculate_demographic_score_def)
qed

lemma behavioral_returns:
  assumes "numeric_fields_parse data"
  shows "\<exists>b. calculate_behavioral_score data = Inr b"
proof -
  from assms obtain r n a where
    "py_float (dict_get_default data ''monthly_revenue'' (PInt 0)) = Inr r"
    "py_int (dict_get_default data ''monthly_orders'' (PInt 0)) = Inr n"
    "py_float (dict_get_default data ''average_order_value'' (PInt 0)) = Inr a"
    unfolding numeric_fields_parse_def by (meson returns_Inr)
  then show ?thesis by (simp add: calculate_behavioral_score_def)
qed

lemma fit_returns:
  assumes "numeric_fields_parse data"
  shows "\<exists>f. calculate_fit_score data = Inr f"
proof -
  from assms obtain c a h s where
    "py_float (dict_get_default data ''conversion_rate'' (PInt 0)) = Inr c"
    "py_float (dict_get_default data ''cart_abandonment_rate'' (PInt 0)) = Inr a"
    "py_int (dict_get_default data ''manual_hours_per_week'' (PInt 0)) = Inr h"
    "py_float (dict_get_default data ''monthly_ad_spend'' (PInt 0)) = Inr s"
    unfolding numeric_fields_parse_def by (meson returns_Inr)
  then show ?thesis by (simp add: calculate_fit_score_def)
qed

subsection \<open>The scenario inputs, evaluated\<close>

lemmas lookup_defs = dict_get_def dict_get_default_def

lemma scenario_full_scores:
  "calculate_demographic_score scenario_full = Inr 50"
  "calculate_behavioral_score scenario_full = Inr 50"
  "calculate_fit_score scenario_full = Inr 50"
  by (simp_all add: calculate_demographic_score_def calculate_behavioral_score_def
      calculate_fit_score_def scenario_full_def lookup_defs py_float_int_exact
      size_scores_def industry_scores_def stage_scores_def
      revenue_points_def orders_points_def aov_points_def conversion_points_def
      abandonment_points_def manual_hours_points_def ad_spend_points_def)

lemma scenario_minimal_scores:
  "calculate_demographic_score scenario_minimal = Inr 0"
  "calculate_behavioral_score scenario_minimal = Inr 0"
  "calculate_fit_score scenario_minimal = Inr 0"
  by (simp_all add: calculate_demographic_score_def calculate_behavioral_score_def
      calculate_fit_score_def scenario_minimal_def lookup_defs py_float_int_exact
      size_scores_def industry_scores_def stage_scores_def
      revenue_points_def orders_points_def aov_points_def conversion_points_def
      abandonment_points_def manual_hours_points_def ad_spend_points_def)

lemma scenario_full_parses: "numeric_fields_parse scenario_full \<and> categories_hashable scenario_full"
  by (simp add: numeric_fields_parse_def categories_hashable_def scenario_full_def lookup_defs
      py_float_int_exact returns_def)

section \<open>Facts about the validator\<close>

declare digits.simps [simp del]

lemma bind_err_eq_Inr: "bind_err m f = Inr r \<longleftrightarrow> (\<exists>x. m = Inr x \<and> f x = Inr r)"
  by (cases m) simp_all

lemma map_of_dict_set: "map_of (dict_set errs k v) k' = (if k' = k then Some v else map_of errs k')"
  by (induction errs) auto

lemma foldM_err_preserves:
  assumes "foldM_err f s xs = Inr s'"
    and "\<And>a x b. x \<in> set xs \<Longrightarrow> f a x = Inr b \<Longrightarrow> g b = g a"
  shows "g s' = g s"
  using assms
proof (induction xs arbitrary: s)
  case Nil
  then show ?case by simp
next
  case (Cons x xs)
  from Cons.prems(1) obtain s1 where s1: "f s x = Inr s1" and rest: "foldM_err f s1 xs = Inr s'"
    by (auto simp: bind_err_eq_Inr)
  have "g s' = g s1" using rest Cons.prems(2) by (intro Cons.IH) auto
  moreover have "g s1 = g s" using s1 Cons.prems(2) by auto
  ultimately show ?case by simp
qed

subsection \<open>The required fields\<close>

lemma map_of_check_required:
  "map_of (check_required data errs f) k =
     (if k = f \<and> \<not> truthy (dict_get data f) then Some (field_title f @ '' is required'')
      else if k = f \<and> str_blank (dict_get data f) then Some (field_title f @ '' cannot be empty'')
      else map_of errs k)"
  by (simp add: check_required_def map_of_dict_set)

lemma map_of_required_loop:
  "map_of (foldl (check_required data) errs fs) k =
     (if k \<in> set fs \<and> \<not> truthy (dict_get data k) then Some (field_title k @ '' is required'')
      else if k \<in> set fs \<and> str_blank (dict_get data k) then Some (field_title k @ '' cannot be empty'')
      else map_of errs k)"
proof (induction fs arbitrary: errs)
  case Nil
  then show ?case by simp
next
  case (Cons f fs)
  show ?case
    by (simp only: foldl_Cons Cons.IH map_of_check_required) auto
qed

subsection \<open>What each check leaves alone\<close>

lemma check_email_frame:
  assumes "check_email data errs = Inr errs'"
    and "k \<noteq> ''email'' \<or> \<not> truthy (dict_get data ''email'')"
  shows "map_of errs' k = map_of errs k"
  using assms
  by (auto simp: check_email_def bind_err_eq_Inr map_of_dict_set split: if_splits)

lemma check_name_frame:
  assumes "check_name data errs f = Inr errs'"
    and "k \<noteq> f \<or> \<not> truthy (dict_get data f)"
  shows "map_of errs' k = map_of errs k"
  using assms
  by (auto simp: check_name_def bind_err_eq_Inr map_of_dict_set split: if_splits)

lemma check_financial_frame:
  assumes "check_financial data errs (f, lo, hi) = Inr errs'"
    and "k \<noteq> f \<or> \<not> truthy (dict_get data f)"
  shows "map_of errs' k = map_of errs k"
  using assms
  by (auto simp: check_financial_def map_of_dict_set split: if_splits sum.splits pyerr.splits)

lemma check_phone_frame:
  assumes "check_phone data errs = Inr errs'" and "k \<noteq> ''phone''"
  shows "map_of errs' k = map_of errs k"
  using assms
  by (auto simp: check_phone_def Let_def map_of_dict_set split: if_splits pyval.splits)

lemma check_website_frame:
  assumes "check_website data errs = Inr errs'" and "k \<noteq> ''website''"
  shows "map_of errs' k = map_of errs k"
  using assms
  by (auto simp: check_website_def bind_err_eq_Inr map_of_dict_set split: if_splits)

lemma check_company_frame:
  assumes "check_company data errs = Inr errs'" and "k \<noteq> ''company''"
  shows "map_of errs' k = map_of errs k"
  using assms
  by (auto simp: check_company_def bind_err_eq_Inr map_of_dict_set split: if_splits)

lemma check_member_frame:
  assumes "k \<noteq> f"
  shows "map_of (check_member data f options msg errs) k = map_of errs k"
  using assms by (simp add: check_member_def map_of_dict_set)

lemma check_percentage_frame:
  assumes "check_percentage data errs f = Inr errs'"
    and "k \<noteq> f \<or> \<not> truthy (dict_get data f)"
  shows "map_of errs' k = map_of errs k"
  using assms
  by (auto simp: check_percentage_def map_of_dict_set split: if_splits sum.splits pyerr.splits)

subsection \<open>Floats made from integers\<close>

lemma round_double_pos_large:
  assumes "2 ^ 53 \<le> a"
  shows "\<exists>r::rat. 2 ^ nat (bitlen a - 1) \<le> r \<and>
           round_double (of_int a) = (if 2 ^ 1024 \<le> r then PosInf else Fin r)"
proof -
  have a0: "0 < a" using assms by (rule less_le_trans[rotated]) simp
  have b54: "54 \<le> bitlen a" using assms by (simp add: bitlen_ge_iff_power)
  define k where "k = nat (bitlen a - 53)"
  have il: "ilog2 (of_int a) = bitlen a - 1"
    using a0 by (simp add: ilog2_def)
  have e: "max (bitlen a - 1) (- 1022) = bitlen a - 1" using b54 by simp
  have u: "pow2 (bitlen a - 1 - 52) = 2 ^ k"
    using b54 by (auto simp: pow2_def k_def)
  define m where "m = round_half_even (of_int a / 2 ^ k)"
  have nk: "nat (bitlen a - 1) = 52 + k" using b54 by (simp add: k_def)
  have "2 ^ nat (bitlen a - 1) \<le> a" using bitlen_bounds[OF a0] by simp
  then have "2 ^ 52 * 2 ^ k \<le> a" by (simp add: nk power_add)
  then have "(of_int (2 ^ 52 * 2 ^ k) :: rat) \<le> of_int a" by (simp only: of_int_le_iff)
  then have "(2 ^ 52 :: rat) \<le> of_int a / 2 ^ k" by (simp add: field_simps)
  then have "(2 ^ 52 :: int) \<le> \<lfloor>(of_int a :: rat) / 2 ^ k\<rfloor>" by (simp add: le_floor_iff)
  then have m52: "2 ^ 52 \<le> m" unfolding m_def using round_half_even_ge_floor order_trans by blast
  have "(of_int (2 ^ 52) :: rat) \<le> of_int m" using m52 by (simp only: of_int_le_iff)
  then have "(2::rat) ^ 52 * 2 ^ k \<le> of_int m * 2 ^ k" by simp
  then have r: "(2::rat) ^ nat (bitlen a - 1) \<le> of_int m * 2 ^ k" by (simp add: nk power_add)
  have nz: "(of_int a :: rat) \<noteq> 0" "0 < (of_int a :: rat)" "\<bar>of_int a :: rat\<bar> = of_int a"
    using a0 by simp_all
  have "round_double (of_int a) =
      (if (2::rat) ^ 1024 \<le> of_int m * 2 ^ k then PosInf else Fin (of_int m * 2 ^ k))"
    unfolding round_double_def Let_def nz(3) il e u
    using nz by (simp add: m_def)
  with r show ?thesis by blast
qed


lemma round_double_overflow:
  assumes "2 ^ 1024 \<le> a"
  shows "round_double (of_int a) = PosInf"
proof -
  have a53: "2 ^ 53 \<le> a" using assms by (rule order_trans[rotated]) simp
  from round_double_pos_large[OF a53] obtain r where
    r: "(2::rat) ^ nat (bitlen a - 1) \<le> r"
    and rd: "round_double (of_int a) = (if 2 ^ 1024 \<le> r then PosInf else Fin r)" by blast
  have "1025 \<le> bitlen a" using assms by (simp add: bitlen_ge_iff_power)
  then have "1024 \<le> nat (bitlen a - 1)" by simp
  then have "(2::rat) ^ 1024 \<le> 2 ^ nat (bitlen a - 1)" by (intro power_increasing) simp_all
  with r have "(2::rat) ^ 1024 \<le> r" by linarith
  with rd show ?thesis by simp
qed

lemma py_float_int_overflow: "2 ^ 1024 \<le> n \<Longrightarrow> py_float (PInt n) = Inl OverflowError"
  by (simp add: py_float_PInt round_double_overflow)



subsection \<open>The validator, step by step\<close>

lemma validate_roi_submission_steps:
  assumes "validate_roi_submission data = Inr r"
  obtains e1 e2 e3 e4 e5 e6 errs where
    "check_email data (foldl (check_required data) [] required_fields) = Inr e1"
    "foldM_err (check_name data) e1 [''first_name'', ''last_name''] = Inr e2"
    "foldM_err (check_financial data) e2 financial_fields = Inr e3"
    "check_phone data e3 = Inr e4"
    "check_website data e4 = Inr e5"
    "check_company data e5 = Inr e6"
    "foldM_err (check_percentage data)
       (check_member data ''company_size'' valid_sizes ''Please select a valid company size''
       (check_member data ''business_stage'' valid_stages ''Please select a valid business stage''
       (check_member data ''industry'' valid_industries ''Please select a valid industry'' e6)))
       percentage_fields = Inr errs"
    "r = \<lparr>valid = (length errs = 0), errors = errs\<rparr>"
  using assms unfolding validate_roi_submission_def bind_err_eq_Inr by blast

lemma names_frame:
  assumes "foldM_err (check_name data) e [''first_name'', ''last_name''] = Inr e'"
    and "k \<notin> {''first_name'', ''last_name''} \<or> \<not> truthy (dict_get data k)"
  shows "map_of e' k = map_of e k"
  using assms(1)
proof (rule foldM_err_preserves)
  fix a x b
  assume "x \<in> set [''first_name'', ''last_name'']" and "check_name data a x = Inr b"
  with assms(2) show "map_of b k = map_of a k"
    by (intro check_name_frame[of data a x b k]) auto
qed

lemma financial_frame:
  assumes "foldM_err (check_financial data) e fcs = Inr e'"
    and "k \<notin> fst ` set fcs \<or> \<not> truthy (dict_get data k)"
  shows "map_of e' k = map_of e k"
  using assms(1)
proof (rule foldM_err_preserves)
  fix a x b
  assume x: "x \<in> set fcs" and c: "check_financial data a x = Inr b"
  obtain f lo hi where xf: "x = (f, lo, hi)" by (cases x)
  from x xf have "f \<in> fst ` set fcs" by force
  with assms(2) have "k \<noteq> f \<or> \<not> truthy (dict_get data f)" by auto
  with c xf show "map_of b k = map_of a k"
    by (intro check_financial_frame[of data a f lo hi b k]) simp_all
qed

lemma percentage_frame:
  assumes "foldM_err (check_percentage data) e fs = Inr e'"
    and "k \<notin> set fs \<or> \<not> truthy (dict_get data k)"
  shows "map_of e' k = map_of e k"
  using assms(1)
proof (rule foldM_err_preserves)
  fix a x b
  assume "x \<in> set fs" and "check_percentage data a x = Inr b"
  with assms(2) show "map_of b k = map_of a k"
    by (intro check_percentage_frame[of data a x b k]) auto
qed

text \<open>A field with a falsy value keeps what the loop over the required fields left.\<close>

lemma falsy_field_untouched:
  assumes "validate_roi_submission data = Inr r"
    and "\<not> truthy (dict_get data k)" and "k \<notin> set optional_checked"
  shows "map_of (errors r) k = map_of (foldl (check_required data) [] required_fields) k"
proof -
  from assms(3) have ne: "k \<noteq> ''phone''" "k \<noteq> ''website''" "k \<noteq> ''company''"
    "k \<noteq> ''industry''" "k \<noteq> ''business_stage''" "k \<noteq> ''company_size''"
    by (auto simp: optional_checked_def)
  from assms(1) obtain e1 e2 e3 e4 e5 e6 errs where
    s1: "check_email data (foldl (check_required data) [] required_fields) = Inr e1" and
    s2: "foldM_err (check_name data) e1 [''first_name'', ''last_name''] = Inr e2" and
    s3: "foldM_err (check_financial data) e2 financial_fields = Inr e3" and
    s4: "check_phone data e3 = Inr e4" and
    s5: "check_website data e4 = Inr e5" and
    s6: "check_company data e5 = Inr e6" and
    s7: "foldM_err (check_percentage data)
       (check_member data ''company_size'' valid_sizes ''Please select a valid company size''
       (check_member data ''business_stage'' valid_stages ''Please select a valid business stage''
       (check_member data ''industry'' valid_industries ''Please select a valid industry'' e6)))
       percentage_fields = Inr errs" and
    r: "r = \<lparr>valid = (length errs = 0), errors = errs\<rparr>"
    by (rule validate_roi_submission_steps)
  have "map_of errs k = map_of (check_member data ''company_size'' valid_sizes ''Please select a valid company size''
       (check_member data ''business_stage'' valid_stages ''Please select a valid business stage''
       (check_member data ''industry'' valid_industries ''Please select a valid industry'' e6))) k"
    using s7 assms(2) by (intro percentage_frame) auto
  also have "\<dots> = map_of e6 k" using ne by (simp add: check_member_frame)
  also have "\<dots> = map_of e5 k" by (rule check_company_frame[OF s6 ne(3)])
  also have "\<dots> = map_of e4 k" by (rule check_website_frame[OF s5 ne(2)])
  also have "\<dots> = map_of e3 k" by (rule check_phone_frame[OF s4 ne(1)])
  also have "\<dots> = map_of e2 k" using s3 assms(2) by (intro financial_frame) auto
  also have "\<dots> = map_of e1 k" using s2 assms(2) by (intro names_frame) auto
  also have "\<dots> = map_of (foldl (check_required data) [] required_fields) k"
    using s1 assms(2) by (intro check_email_frame) auto
  finally show ?thesis by (simp add: r)
qed






subsection \<open>The validator on concrete submissions\<close>

lemmas validate_defs =
  validate_roi_submission_def check_required_def check_email_def check_name_def
  check_financial_def check_phone_def check_website_def check_company_def check_member_def
  check_percentage_def required_fields_def financial_fields_def percentage_fields_def
  valid_industries_def valid_stages_def valid_sizes_def
  re_match_def re_match_anchored_def email_pattern_def name_pattern_def website_pattern_def
  plus_def opt_def lit_def is_alpha_def is_digit_def is_space_def strip_def
  field_title_def upper_def lower_def fmt_commas_def digits.simps lookup_defs py_float_int_exact

lemma validate_999:
  "validate_roi_submission (submission_with_revenue (PInt 999)) =
     Inr \<lparr>valid = False,
          errors = [(''monthly_revenue'', ''Monthly Revenue must be at least $1,000'')]\<rparr>"
  by (simp add: submission_with_revenue_def validate_defs)




lemma int_of_empty: "int_of_str '''' = None"
  by (simp add: int_of_str_def strip_def split_sign_def digitpart_def)

lemma validate_cx:
  "validate_roi_submission
     (submission_with_revenue (PInt 5000) @ [(''manual_hours_per_week'', PStr '''')]) =
   Inr \<lparr>valid = True, errors = []\<rparr>"
  by (simp add: submission_with_revenue_def validate_defs)

lemma score_cx:
  "calculate_lead_score
     (submission_with_revenue (PInt 5000) @ [(''manual_hours_per_week'', PStr '''')]) =
   Inl ValueError"
  by (simp add: submission_with_revenue_def calculate_lead_score_def
      calculate_demographic_score_def calculate_behavioral_score_def calculate_fit_score_def
      lookup_defs py_float_int_exact int_of_empty)

lemma required_falsy_error:
  assumes "validate_roi_submission data = Inr r" and "\<not> truthy (dict_get data field)"
    and "field \<in> set required_fields"
  shows "map_of (errors r) field = Some (field_title field @ '' is required'')"
proof -
  from assms(3) have "field \<notin> set optional_checked"
    by (auto simp: required_fields_def optional_checked_def)
  from falsy_field_untouched[OF assms(1,2) this] assms(2,3) show ?thesis
    by (simp add: map_of_required_loop)
qed

lemma percentage_falsy_no_error:
  assumes "validate_roi_submission data = Inr r" and "\<not> truthy (dict_get data field)"
    and "field \<in> set percentage_fields"
  shows "map_of (errors r) field = None"
proof -
  from assms(3) have n: "field \<notin> set optional_checked" "field \<notin> set required_fields"
    by (auto simp: required_fields_def optional_checked_def percentage_fields_def)
  from falsy_field_untouched[OF assms(1,2) n(1)] n(2) show ?thesis
    by (simp add: map_of_required_loop)
qed

subsection \<open>The calculation validator, case by case\<close>

lemma validate_calculation_data_cases:
  "validate_calculation_data data =
     (if \<not> truthy (dict_get data ''monthly_revenue'') then
        Inr \<lparr>valid = False,
             errors = [(''monthly_revenue'', ''Monthly revenue is required for calculations'')]\<rparr>
      else case py_float (dict_get data ''monthly_revenue'') of
        Inl OverflowError \<Rightarrow> Inl OverflowError
      | Inl e \<Rightarrow>
          Inr \<lparr>valid = False,
               errors = [(''monthly_revenue'', ''Monthly revenue must be a valid number'')]\<rparr>
      | Inr v \<Rightarrow>
          if fle v 0 then
            Inr \<lparr>valid = False,
                 errors = [(''monthly_revenue'', ''Monthly revenue must be greater than 0'')]\<rparr>
          else if fgt v 10000000 then
            Inr \<lparr>valid = False,
                 errors = [(''monthly_revenue'', ''Monthly revenue seems unusually high'')]\<rparr>
          else Inr \<lparr>valid = True, errors = []\<rparr>)"
  by (simp add: validate_calculation_data_def split: sum.splits pyerr.splits)

subsection \<open>A fractional order count given as a string\<close>

lemma float_12_5: "float_of_str ''12.5'' = Some (Fin (25 / 2))"
  by code_simp

lemma int_12_5: "int_of_str ''12.5'' = None"
  by (simp add: int_of_str_def strip_def is_space_def split_sign_def digitpart_def is_digit_def
      digit_val_def)

lemma validate_fractional_orders:
  "validate_roi_submission
     [(''first_name'', PStr ''Ann''), (''last_name'', PStr ''Lee''),
      (''email'', PStr ''ann@x.co''), (''monthly_revenue'', PInt 5000),
      (''average_order_value'', PInt 50), (''monthly_orders'', PStr ''12.5'')] =
   Inr \<lparr>valid = True, errors = []\<rparr>"
  by (simp add: validate_defs float_12_5)

lemma score_fractional_orders:
  "calculate_lead_score
     [(''first_name'', PStr ''Ann''), (''last_name'', PStr ''Lee''),
      (''email'', PStr ''ann@x.co''), (''monthly_revenue'', PInt 5000),
      (''average_order_value'', PInt 50), (''monthly_orders'', PStr ''12.5'')] =
   Inl ValueError"
  by (simp add: calculate_lead_score_def calculate_demographic_score_def
      calculate_behavioral_score_def lookup_defs py_float_int_exact int_12_5)

section \<open>Facts about the sanitizers\<close>

lemma sanitize_input_shape: "shape (sanitize_input v) = shape v"
  by (induction v rule: sanitize_input.induct) (auto simp: case_prod_unfold)

lemma sanitize_input_leaves: "str_leaves (sanitize_input v) = map clean (str_leaves v)"
  by (induction v rule: sanitize_input.induct)
    (auto simp: clean_def case_prod_unfold map_concat comp_def intro!: arg_cong[where f = concat])

lemma clean_idem: "clean (clean s) = clean s"
proof -
  have "filter (\<lambda>c. \<not> dangerous c) (clean s) = clean s"
    unfolding clean_def by (rule filter_True) (auto dest: in_set_takeD)
  then show ?thesis by (simp add: clean_def)
qed

lemma clean_safe: "length (clean s) \<le> 1000 \<and> list_all (\<lambda>c. \<not> dangerous c) (clean s)"
  by (auto simp: clean_def list_all_iff dest: in_set_takeD)

lemma sanitize_input_idem: "sanitize_input (sanitize_input v) = sanitize_input v"
  using clean_idem
  by (induction v rule: sanitize_input.induct) (auto simp: clean_def case_prod_unfold)

lemma sanitize_form_data_map_aux:
  assumes "distinct (map fst (acc @ data))"
  shows "foldl (\<lambda>sanitized (key, v). dict_set sanitized key (sanitize_field key v)) acc data =
         acc @ map (\<lambda>(key, v). (key, sanitize_field key v)) data"
  using assms
proof (induction data arbitrary: acc)
  case Nil
  then show ?case by simp
next
  case (Cons kv data)
  obtain k v where kv: "kv = (k, v)" by (cases kv)
  have fresh: "k \<notin> fst ` set acc" using Cons.prems kv by auto
  have ds: "dict_set acc k x = acc @ [(k, x)]" for x
    using fresh by (induction acc) auto
  have "distinct (map fst ((acc @ [(k, sanitize_field k v)]) @ data))"
    using Cons.prems kv by auto
  from Cons.IH[OF this] show ?case by (simp add: kv ds)
qed

lemma sanitize_form_data_map:
  "distinct (map fst data) \<Longrightarrow>
   sanitize_form_data data = map (\<lambda>(key, v). (key, sanitize_field key v)) data"
  using sanitize_form_data_map_aux[of "[]" data] by (simp add: sanitize_form_data_def)

lemma field_limit_values:
  "field_limit ''first_name'' = 50" "field_limit ''last_name'' = 50" "field_limit ''email'' = 255"
  "field_limit ''company'' = 200" "field_limit ''website'' = 200" "field_limit ''phone'' = 20"
  by (simp_all add: field_limit_def)

section \<open>The properties\<close>

text \<open>
  C1, as stated, fails: with every numeric field an integer, a \<^verbatim>\<open>company_size\<close> that is
  a list makes \<^verbatim>\<open>size_scores.get\<close> raise TypeError (the key is unhashable), so no score
  is returned.
\<close>

theorem lead_score_unhashable_category_counterexample:
  "numeric_fields_parse
     [(''company_size'', PList []), (''monthly_revenue'', PInt 5000),
      (''monthly_orders'', PInt 10), (''average_order_value'', PInt 10)] \<and>
   calculate_lead_score
     [(''company_size'', PList []), (''monthly_revenue'', PInt 5000),
      (''monthly_orders'', PInt 10), (''average_order_value'', PInt 10)] = Inl TypeError"
  by (simp add: numeric_fields_parse_def calculate_lead_score_def calculate_demographic_score_def
      lookup_defs py_float_int_exact returns_def)

text \<open>
  C1, amended: for every input mapping whose numeric fields are accepted by the conversion
  the code applies to them (\<^verbatim>\<open>float\<close> for \<^verbatim>\<open>monthly_revenue\<close>, \<^verbatim>\<open>average_order_value\<close>,
  \<^verbatim>\<open>conversion_rate\<close>, \<^verbatim>\<open>cart_abandonment_rate\<close> and \<^verbatim>\<open>monthly_ad_spend\<close>, \<^verbatim>\<open>int\<close> for
  \<^verbatim>\<open>monthly_orders\<close> and \<^verbatim>\<open>manual_hours_per_week\<close>) and whose \<^verbatim>\<open>company_size\<close>,
  \<^verbatim>\<open>industry\<close> and \<^verbatim>\<open>business_stage\<close> are absent or hashable, the three sub-scores are
  returned and lie in [0,50] each, and \<^verbatim>\<open>calculate_lead_score\<close> returns their sum clamped
  to [0,150].
\<close>

theorem lead_score_clamped_sum:
  assumes "numeric_fields_parse data" and "categories_hashable data"
  shows "\<exists>d b f. calculate_demographic_score data = Inr d \<and> 0 \<le> d \<and> d \<le> 50 \<and>
           calculate_behavioral_score data = Inr b \<and> 0 \<le> b \<and> b \<le> 50 \<and>
           calculate_fit_score data = Inr f \<and> 0 \<le> f \<and> f \<le> 50 \<and>
           calculate_lead_score data = Inr (max 0 (min 150 (d + b + f))) \<and>
           0 \<le> max 0 (min 150 (d + b + f)) \<and> max 0 (min 150 (d + b + f)) \<le> 150"
proof -
  from demographic_returns[OF assms(2)]
  obtain d where d: "calculate_demographic_score data = Inr d" ..
  from behavioral_returns[OF assms(1)]
  obtain b where b: "calculate_behavioral_score data = Inr b" ..
  from fit_returns[OF assms(1)]
  obtain f where f: "calculate_fit_score data = Inr f" ..
  have "calculate_lead_score data = Inr (max 0 (min 150 (d + b + f)))"
    by (simp add: calculate_lead_score_def d b f)
  with d b f demographic_bounds[OF d] behavioral_bounds[OF b] fit_bounds[OF f]
  show ?thesis by auto
qed

theorem lead_score_clamped_sum_witness:
  "numeric_fields_parse scenario_full \<and> categories_hashable scenario_full \<and>
   (\<exists>d b f. calculate_demographic_score scenario_full = Inr d \<and> 0 \<le> d \<and> d \<le> 50 \<and>
      calculate_behavioral_score scenario_full = Inr b \<and> 0 \<le> b \<and> b \<le> 50 \<and>
      calculate_fit_score scenario_full = Inr f \<and> 0 \<le> f \<and> f \<le> 50 \<and>
      calculate_lead_score scenario_full = Inr (max 0 (min 150 (d + b + f))) \<and>
      0 \<le> max 0 (min 150 (d + b + f)) \<and> max 0 (min 150 (d + b + f)) \<le> 150)"
proof -
  have h: "numeric_fields_parse scenario_full" "categories_hashable scenario_full"
    using scenario_full_parses by simp_all
  from lead_score_clamped_sum[OF h] h show ?thesis by simp
qed

text \<open>
  C2: \<^verbatim>\<open>assign_tier\<close> is defined on every integer score; it returns Hot exactly from 100,
  Warm exactly from 60 to 99 and Cold exactly below 60, and a larger score never gives a
  lower tier.
\<close>

theorem assign_tier_thresholds:
  "(assign_tier s = ''Hot'' \<longleftrightarrow> 100 \<le> s) \<and>
   (assign_tier s = ''Warm'' \<longleftrightarrow> 60 \<le> s \<and> s < 100) \<and>
   (assign_tier s = ''Cold'' \<longleftrightarrow> s < 60) \<and>
   (s \<le> t \<longrightarrow> tier_rank (assign_tier s) \<le> tier_rank (assign_tier t))"
  by (simp add: assign_tier_def tier_rank_def)

theorem assign_tier_thresholds_witness:
  "(59::int) \<le> 100 \<and> assign_tier 59 = ''Cold'' \<and> assign_tier 100 = ''Hot'' \<and>
   tier_rank (assign_tier 59) \<le> tier_rank (assign_tier 100)"
  using assign_tier_thresholds[of 59 100] assign_tier_thresholds[of 100 100]
  by (simp add: tier_rank_def)

text \<open>
  C8: on the fully loaded scenario the sub-scores are 50, 50 and 50, the score is 150 and
  the tier Hot; on the scenario with only \<^verbatim>\<open>monthly_revenue\<close> 3000, \<^verbatim>\<open>monthly_orders\<close> 10
  and \<^verbatim>\<open>average_order_value\<close> 10 every sub-score is 0, the score is 0 and the tier Cold.
\<close>

theorem scenarios_score_and_tier:
  "calculate_demographic_score scenario_full = Inr 50 \<and>
   calculate_behavioral_score scenario_full = Inr 50 \<and>
   calculate_fit_score scenario_full = Inr 50 \<and>
   calculate_lead_score scenario_full = Inr 150 \<and> assign_tier 150 = ''Hot'' \<and>
   calculate_demographic_score scenario_minimal = Inr 0 \<and>
   calculate_behavioral_score scenario_minimal = Inr 0 \<and>
   calculate_fit_score scenario_minimal = Inr 0 \<and>
   calculate_lead_score scenario_minimal = Inr 0 \<and> assign_tier 0 = ''Cold''"
  by (simp add: calculate_lead_score_def scenario_full_scores scenario_minimal_scores
      assign_tier_def)

text \<open>
  C3, as stated, fails, and the code is at fault: a submission with valid required fields
  and an empty string for \<^verbatim>\<open>manual_hours_per_week\<close> (a field the validator never looks
  at) is declared valid, and \<^verbatim>\<open>calculate_lead_score\<close> then raises ValueError at
  \<^verbatim>\<open>int('')\<close>. The same happens on a required, validated field: the validator accepts
  the string \<^verbatim>\<open>'12.5'\<close> for \<^verbatim>\<open>monthly_orders\<close> by \<^verbatim>\<open>float\<close>, the scorer converts it by
  \<^verbatim>\<open>int\<close>, which raises ValueError.
\<close>

theorem scoring_fails_after_validation:
  "validate_roi_submission
     (submission_with_revenue (PInt 5000) @ [(''manual_hours_per_week'', PStr '''')]) =
   Inr \<lparr>valid = True, errors = []\<rparr> \<and>
   calculate_lead_score
     (submission_with_revenue (PInt 5000) @ [(''manual_hours_per_week'', PStr '''')]) =
   Inl ValueError \<and>
   validate_roi_submission
     [(''first_name'', PStr ''Ann''), (''last_name'', PStr ''Lee''),
      (''email'', PStr ''ann@x.co''), (''monthly_revenue'', PInt 5000),
      (''average_order_value'', PInt 50), (''monthly_orders'', PStr ''12.5'')] =
   Inr \<lparr>valid = True, errors = []\<rparr> \<and>
   calculate_lead_score
     [(''first_name'', PStr ''Ann''), (''last_name'', PStr ''Lee''),
      (''email'', PStr ''ann@x.co''), (''monthly_revenue'', PInt 5000),
      (''average_order_value'', PInt 50), (''monthly_orders'', PStr ''12.5'')] =
   Inl ValueError"
  using validate_cx score_cx validate_fractional_orders score_fractional_orders by simp

text \<open>
  C4: whenever \<^verbatim>\<open>validate_roi_submission\<close> or \<^verbatim>\<open>validate_calculation_data\<close> returns a
  result, its \<^verbatim>\<open>valid\<close> field is true exactly when its \<^verbatim>\<open>errors\<close> mapping is empty.
\<close>

theorem valid_iff_no_errors:
  "(validate_roi_submission data = Inr r \<longrightarrow> valid r = (errors r = [])) \<and>
   (validate_calculation_data data = Inr r' \<longrightarrow> valid r' = (errors r' = []))"
proof -
  have "valid r = (errors r = [])" if "validate_roi_submission data = Inr r"
  proof -
    from that obtain errs where "r = \<lparr>valid = (length errs = 0), errors = errs\<rparr>"
      by (rule validate_roi_submission_steps)
    then show ?thesis by simp
  qed
  moreover have "valid r' = (errors r' = [])" if "validate_calculation_data data = Inr r'"
    using that by (auto simp: validate_calculation_data_def bind_err_eq_Inr)
  ultimately show ?thesis by blast
qed

theorem valid_iff_no_errors_witness:
  "validate_roi_submission (submission_with_revenue (PInt 999)) =
     Inr \<lparr>valid = False,
          errors = [(''monthly_revenue'', ''Monthly Revenue must be at least $1,000'')]\<rparr> \<and>
   validate_calculation_data [(''monthly_revenue'', PInt 999)] = Inr \<lparr>valid = True, errors = []\<rparr> \<and>
   valid \<lparr>valid = False,
          errors = [(''monthly_revenue'', ''Monthly Revenue must be at least $1,000'')]\<rparr> =
     (errors \<lparr>valid = False,
          errors = [(''monthly_revenue'', ''Monthly Revenue must be at least $1,000'')]\<rparr> = []) \<and>
   valid \<lparr>valid = True, errors = []\<rparr> = (errors \<lparr>valid = True, errors = []\<rparr> = [])"
proof -
  have c: "validate_calculation_data [(''monthly_revenue'', PInt 999)] = Inr \<lparr>valid = True, errors = []\<rparr>"
    using py_float_int_exact[of 999] by (simp add: validate_calculation_data_cases lookup_defs)
  from valid_iff_no_errors[of "submission_with_revenue (PInt 999)" _ _] validate_999 c
  show ?thesis by simp
qed



text \<open>
  C9, as stated, fails, and the code is at fault: for an integer \<^verbatim>\<open>monthly_revenue\<close> of
  \<open>2^1024\<close>, which is above 10000000, \<^verbatim>\<open>float\<close> raises OverflowError; the handler
  catches ValueError and TypeError only, so \<^verbatim>\<open>validate_calculation_data\<close> raises instead
  of recording "Monthly revenue seems unusually high", as it does for 10000001.
\<close>

theorem calculation_overflow_escapes:
  "validate_calculation_data [(''monthly_revenue'', PInt (2 ^ 1024))] = Inl OverflowError \<and>
   validate_calculation_data [(''monthly_revenue'', PInt 10000001)] =
     Inr \<lparr>valid = False,
          errors = [(''monthly_revenue'', ''Monthly revenue seems unusually high'')]\<rparr>"
proof -
  have "py_float (PInt (2 ^ 1024)) = Inl OverflowError"
    by (rule py_float_int_overflow) simp
  moreover have "py_float (PInt 10000001) = Inr (Fin 10000001)"
    using py_float_int_exact[of 10000001] by simp
  ultimately show ?thesis
    by (simp add: validate_calculation_data_cases lookup_defs)
qed

text \<open>
  C10: on every input on which \<^verbatim>\<open>validate_roi_submission\<close> returns, a required field
  whose value is falsy (absent, \<^verbatim>\<open>None\<close>, 0, 0.0, the empty string, an empty list or
  dictionary) has the error "is required" under its key, a percentage field whose value is
  falsy has no error, and the range and type checks of the financial and the percentage
  loop leave the errors as they are for a field whose value is falsy.
\<close>

theorem falsy_values_count_as_absent:
  assumes "validate_roi_submission data = Inr r" and "\<not> truthy (dict_get data field)"
  shows "(field \<in> set required_fields \<longrightarrow>
            map_of (errors r) field = Some (field_title field @ '' is required'')) \<and>
         (field \<in> set percentage_fields \<longrightarrow> map_of (errors r) field = None) \<and>
         check_financial data errs (field, lo, hi) = Inr errs \<and>
         check_percentage data errs field = Inr errs"
proof -
  have skip: "check_financial data errs (field, lo, hi) = Inr errs"
    "check_percentage data errs field = Inr errs"
    using assms(2) by (simp_all add: check_financial_def check_percentage_def)
  with required_falsy_error[OF assms] percentage_falsy_no_error[OF assms]
  show ?thesis by blast
qed

theorem falsy_values_count_as_absent_witness:
  "validate_roi_submission (submission_with_revenue (PInt 0)) =
     Inr \<lparr>valid = False, errors = [(''monthly_revenue'', ''Monthly Revenue is required'')]\<rparr> \<and>
   \<not> truthy (dict_get (submission_with_revenue (PInt 0)) ''monthly_revenue'') \<and>
   ''monthly_revenue'' \<in> set required_fields \<and>
   map_of (errors \<lparr>valid = False, errors = [(''monthly_revenue'', ''Monthly Revenue is required'')]\<rparr>)
     ''monthly_revenue'' = Some (field_title ''monthly_revenue'' @ '' is required'') \<and>
   \<not> truthy (dict_get (submission_with_revenue (PInt 0)) ''conversion_rate'') \<and>
   ''conversion_rate'' \<in> set percentage_fields \<and>
   map_of (errors \<lparr>valid = False, errors = [(''monthly_revenue'', ''Monthly Revenue is required'')]\<rparr>)
     ''conversion_rate'' = None \<and>
   check_financial (submission_with_revenue (PInt 0)) [] (''monthly_revenue'', 1000, 10000000) = Inr [] \<and>
   check_percentage (submission_with_revenue (PInt 0)) [] ''conversion_rate'' = Inr []"
proof -
  have v: "validate_roi_submission (submission_with_revenue (PInt 0)) =
     Inr \<lparr>valid = False, errors = [(''monthly_revenue'', ''Monthly Revenue is required'')]\<rparr>"
    by (simp add: submission_with_revenue_def validate_defs)
  have f1: "\<not> truthy (dict_get (submission_with_revenue (PInt 0)) ''monthly_revenue'')"
    and f2: "\<not> truthy (dict_get (submission_with_revenue (PInt 0)) ''conversion_rate'')"
    by (simp_all add: submission_with_revenue_def lookup_defs)
  from falsy_values_count_as_absent[OF v f1, where lo = 1000 and hi = 10000000 and errs = "[]"]
    falsy_values_count_as_absent[OF v f2, where lo = 0 and hi = 0 and errs = "[]"] v f1 f2
  show ?thesis
    by (simp add: required_fields_def percentage_fields_def)
qed

text \<open>
  C5, as stated, fails: there are two sanitizers, and neither does all of it.
  \<^verbatim>\<open>sanitize_input\<close> has no limit by field, so a \<^verbatim>\<open>first_name\<close> of 60 characters
  stays 60 characters long; \<^verbatim>\<open>sanitize_form_data\<close> does not descend into lists or
  dictionaries, so a string inside a list keeps its angle brackets.
\<close>

theorem sanitizers_counterexample:
  "sanitize_input (PDict [(''first_name'', PStr (replicate 60 CHR ''a''))]) =
     PDict [(''first_name'', PStr (replicate 60 CHR ''a''))] \<and>
   sanitize_form_data [(''tags'', PList [PStr ''<b>''])] = [(''tags'', PList [PStr ''<b>''])]"
  by (simp add: dangerous_def sanitize_form_data_def sanitize_field_def)

text \<open>
  C5, amended: \<^verbatim>\<open>sanitize_input\<close> returns, for every nested value, a value of the same
  shape in which every string leaf has the characters \<^verbatim>\<open>< > " '\<close> removed and is then cut
  to 1000 characters, with no limit by field; \<^verbatim>\<open>None\<close>, booleans, integers and floats
  are returned unchanged. \<^verbatim>\<open>sanitize_form_data\<close> treats the top-level values only: a
  string has the four characters removed, surrounding whitespace trimmed and is cut to the
  limit of its key (\<^verbatim>\<open>first_name\<close>, \<^verbatim>\<open>last_name\<close> 50, \<^verbatim>\<open>email\<close> 255,
  \<^verbatim>\<open>company\<close>, \<^verbatim>\<open>website\<close> 200, \<^verbatim>\<open>phone\<close> 20, any other key 500); every other
  value, lists and dictionaries included, is returned unchanged under the same key. Both
  are total functions.
\<close>

theorem sanitizers_by_function:
  "shape (sanitize_input v) = shape v \<and>
   str_leaves (sanitize_input v) = map clean (str_leaves v) \<and>
   length (clean s) \<le> 1000 \<and> list_all (\<lambda>c. \<not> dangerous c) (clean s) \<and>
   sanitize_input PNone = PNone \<and> sanitize_input (PBool b) = PBool b \<and>
   sanitize_input (PInt n) = PInt n \<and> sanitize_input (PFloat f) = PFloat f \<and>
   (distinct (map fst data) \<longrightarrow>
      sanitize_form_data data = map (\<lambda>(key, x). (key, sanitize_field key x)) data) \<and>
   sanitize_field key (PStr s) =
     PStr (take (field_limit key) (strip (filter (\<lambda>c. \<not> dangerous c) s))) \<and>
   (\<not> is_str x \<longrightarrow> sanitize_field key x = x) \<and>
   field_limit ''first_name'' = 50 \<and> field_limit ''last_name'' = 50 \<and>
   field_limit ''email'' = 255 \<and> field_limit ''company'' = 200 \<and>
   field_limit ''website'' = 200 \<and> field_limit ''phone'' = 20 \<and>
   (key \<notin> set [''first_name'', ''last_name'', ''email'', ''company'', ''website'', ''phone'']
      \<longrightarrow> field_limit key = 500)"
proof -
  have nonstr: "sanitize_field key x = x" if "\<not> is_str x"
    using that by (cases x) (simp_all add: sanitize_field_def)
  have other: "field_limit key = 500"
    if "key \<notin> set [''first_name'', ''last_name'', ''email'', ''company'', ''website'', ''phone'']"
    using that by (simp add: field_limit_def)
  have str: "sanitize_field key (PStr s) =
     PStr (take (field_limit key) (strip (filter (\<lambda>c. \<not> dangerous c) s)))"
    by (simp add: sanitize_field_def)
  from sanitize_input_shape[of v] sanitize_input_leaves[of v] clean_safe[of s]
    sanitize_form_data_map[of data] str nonstr other field_limit_values
  show ?thesis by simp
qed

theorem sanitizers_by_function_witness:
  "sanitize_input (PDict [(''name'', PStr ''<script>bob</script>'')]) =
     PDict [(''name'', PStr ''scriptbob/script'')] \<and>
   shape (PDict [(''name'', PStr ''scriptbob/script'')]) =
     shape (PDict [(''name'', PStr ''<script>bob</script>'')]) \<and>
   distinct (map fst [(''name'', PStr '' <b>bob</b> ''), (''age'', PInt 3)]) \<and>
   sanitize_form_data [(''name'', PStr '' <b>bob</b> ''), (''age'', PInt 3)] =
     [(''name'', PStr ''bbob/b''), (''age'', PInt 3)] \<and>
   \<not> is_str (PInt 3) \<and> sanitize_field ''age'' (PInt 3) = PInt 3 \<and>
   ''age'' \<notin> set [''first_name'', ''last_name'', ''email'', ''company'', ''website'', ''phone''] \<and>
   field_limit ''age'' = 500"
proof -
  have s: "sanitize_input (PDict [(''name'', PStr ''<script>bob</script>'')]) =
     PDict [(''name'', PStr ''scriptbob/script'')]"
    by (simp add: dangerous_def)
  have f: "map (\<lambda>(key, x). (key, sanitize_field key x))
       [(''name'', PStr '' <b>bob</b> ''), (''age'', PInt 3)] =
     [(''name'', PStr ''bbob/b''), (''age'', PInt 3)]"
    by (simp add: sanitize_field_def dangerous_def strip_def is_space_def field_limit_def)
  from sanitizers_by_function[of "PDict [(''name'', PStr ''<script>bob</script>'')]" "[]"
      False 0 "Fin 0" "[(''name'', PStr '' <b>bob</b> ''), (''age'', PInt 3)]" "''age''" "PInt 3"]
    s f
  show ?thesis by simp
qed

text \<open>
  C6: sanitizing with \<^verbatim>\<open>sanitize_input\<close> twice gives the same lead score (or the
  same error) as sanitizing once, for every input mapping.
\<close>

theorem sanitize_twice_same_score:
  "calculate_lead_score (the_dict (sanitize_input (sanitize_input (PDict data)))) =
   calculate_lead_score (the_dict (sanitize_input (PDict data)))"
  by (simp only: sanitize_input_idem)

end
